theory Spec2Isabelle
  imports Main "HOL-Library.Sublist"
begin

section \<open>Strings\<close>

text \<open>
  Python strings are modelled as \<^typ>\<open>string\<close>, read as sequences of Latin-1 code
  points: every literal the modelled code compares against lies in that range.
  \<open>lower\<close> is \<^verbatim>\<open>str.lower()\<close> on that range (A-Z, and the accented capitals
  0xC0-0xDE except the multiplication sign), \<open>is_in\<close> is the substring test
  \<^verbatim>\<open>needle in hay\<close>.
\<close>

definition lower_char :: "char \<Rightarrow> char" where
  "lower_char c =
     (let n = (of_char c :: nat)
      in if (65 \<le> n \<and> n \<le> 90) \<or> (192 \<le> n \<and> n \<le> 222 \<and> n \<noteq> 215)
         then char_of (n + 32) else c)"

definition lower :: "string \<Rightarrow> string" where
  "lower s = map lower_char s"

definition is_in :: "string \<Rightarrow> string \<Rightarrow> bool" where
  "is_in needle hay = sublist needle hay"

fun any_in :: "string list \<Rightarrow> string \<Rightarrow> bool" where
  "any_in [] hay = False"
| "any_in (k # ks) hay = (if is_in k hay then True else any_in ks hay)"

section \<open>The fleet coordinator (browser\_manager.py)\<close>

text \<open>
  A worker as the coordinator sees it: \<^verbatim>\<open>BBBVoteBot.__init__\<close> sets
  \<^verbatim>\<open>vote_count = 0\<close> and \<^verbatim>\<open>last_confirmation_detected = False\<close>.
\<close>

record bot =
  participant_name :: string
  tab_number :: nat
  vote_count :: int
  last_confirmation_detected :: bool

definition new_bot :: "string \<Rightarrow> nat \<Rightarrow> bot" where
  "new_bot name tab =
     \<lparr>participant_name = name, tab_number = tab, vote_count = 0,
      last_confirmation_detected = False\<rparr>"

text \<open>The two JSON files. Timestamps are kept in their formatted form.\<close>

record counter_file =
  cf_total_votes :: int
  cf_last_updated :: string
  cf_votes_per_tab :: "int list"

record session_info =
  data_inicio :: string
  data_fim :: string
  votos_na_sessao :: int
  votos_por_aba :: "int list"
  total_ao_final :: int
  participante :: string
  numero_abas :: nat

record general_stats =
  total_votos_historico :: int
  total_sessoes :: nat
  votos_na_sessao_atual :: int
  votos_por_aba_atual :: "int list"
  total_votos_atual :: int

record stats_file =
  total_historico :: int
  sessoes :: "session_info list"
  ultima_atualizacao :: "string option"
  estatisticas_gerais :: "general_stats option"

text \<open>
  The coordinator: its workers, the aggregate counter, the session fields set by
  \<^verbatim>\<open>start_voting\<close>, and the two files on disk (\<open>None\<close>: the file does not exist
  or cannot be read).
\<close>

record manager =
  bots :: "bot list"
  total_votes :: int
  session_start_time :: "string option"
  session_start_votes :: int
  target_name :: string
  counter_disk :: "counter_file option"
  stats_disk :: "stats_file option"

definition load_vote_counter :: "counter_file option \<Rightarrow> int" where
  "load_vote_counter f = (case f of None \<Rightarrow> 0 | Some d \<Rightarrow> cf_total_votes d)"

definition save_vote_counter :: "string \<Rightarrow> manager \<Rightarrow> manager" where
  "save_vote_counter now m =
     m\<lparr>counter_disk := Some \<lparr>cf_total_votes = total_votes m, cf_last_updated = now,
                               cf_votes_per_tab = map vote_count (bots m)\<rparr>\<rparr>"

definition load_vote_stats :: "stats_file option \<Rightarrow> stats_file" where
  "load_vote_stats f =
     (case f of
        None \<Rightarrow> \<lparr>total_historico = 0, sessoes = [], ultima_atualizacao = None,
                  estatisticas_gerais = None\<rparr>
      | Some d \<Rightarrow> d)"

text \<open>\<^verbatim>\<open>any(s.get('data_inicio') == session_info['data_inicio'] for s in sessions)\<close>\<close>

fun session_exists :: "string \<Rightarrow> session_info list \<Rightarrow> bool" where
  "session_exists start [] = False"
| "session_exists start (s # ss) = (if data_inicio s = start then True else session_exists start ss)"

text \<open>The \<^verbatim>\<open>for i, s in enumerate(sessions)\<close> loop: the first record with that start is replaced.\<close>

fun replace_session :: "session_info \<Rightarrow> session_info list \<Rightarrow> session_info list" where
  "replace_session si [] = []"
| "replace_session si (s # ss) =
     (if data_inicio s = data_inicio si then si # ss else s # replace_session si ss)"

text \<open>\<^verbatim>\<open>if len(sessions) > 100: sessions = sessions[-100:]\<close>\<close>

definition keep_last_100 :: "session_info list \<Rightarrow> session_info list" where
  "keep_last_100 sessions =
     (if length sessions > 100 then drop (length sessions - 100) sessions else sessions)"

definition add_session :: "session_info \<Rightarrow> session_info list \<Rightarrow> session_info list" where
  "add_session si sessions =
     keep_last_100 (if \<not> session_exists (data_inicio si) sessions then sessions @ [si]
                    else replace_session si sessions)"

text \<open>
  \<^verbatim>\<open>_save_vote_stats\<close>: the new contents of the statistics file, from the contents
  loaded and the coordinator's fields; \<open>now\<close> is the formatted current time. The
  write itself is taken to succeed: a write that fails is caught and logged, and leaves
  the file as it was.
\<close>

definition new_vote_stats :: "string \<Rightarrow> manager \<Rightarrow> stats_file \<Rightarrow> stats_file" where
  "new_vote_stats now m stats =
     (let votes_per_tab = map vote_count (bots m);
          session_votes = sum_list votes_per_tab;
          votes_this_session = total_votes m - session_start_votes m;
          stats1 = stats\<lparr>total_historico := max (total_historico stats) (total_votes m)\<rparr>;
          stats2 =
            (case session_start_time m of
               None \<Rightarrow> stats1
             | Some start \<Rightarrow>
                 if votes_this_session > 0 \<or> session_votes > 0
                 then stats1\<lparr>sessoes :=
                        add_session
                          \<lparr>data_inicio = start, data_fim = now,
                           votos_na_sessao = votes_this_session,
                           votos_por_aba = votes_per_tab,
                           total_ao_final = total_votes m,
                           participante = target_name m,
                           numero_abas = length votes_per_tab\<rparr>
                          (sessoes stats1)\<rparr>
                 else stats1)
      in stats2\<lparr>ultima_atualizacao := Some now,
                estatisticas_gerais := Some
                  \<lparr>total_votos_historico = total_historico stats2,
                   total_sessoes = length (sessoes stats2),
                   votos_na_sessao_atual = votes_this_session,
                   votos_por_aba_atual = votes_per_tab,
                   total_votos_atual = total_votes m\<rparr>\<rparr>)"

definition save_vote_stats :: "string \<Rightarrow> manager \<Rightarrow> manager" where
  "save_vote_stats now m =
     m\<lparr>stats_disk := Some (new_vote_stats now m (load_vote_stats (stats_disk m)))\<rparr>"

text \<open>
  \<^verbatim>\<open>_on_vote_completed\<close>: the body of the section under \<^verbatim>\<open>vote_lock\<close>. It has no
  suspension point, so it runs as one step.
\<close>

definition on_vote_completed :: "nat \<Rightarrow> string \<Rightarrow> manager \<Rightarrow> manager" where
  "on_vote_completed tab now m =
     (let votes_per_tab = map vote_count (bots m);
          calculated_total = sum_list votes_per_tab
      in save_vote_stats now (save_vote_counter now (m\<lparr>total_votes := calculated_total\<rparr>)))"

text \<open>
  \<^verbatim>\<open>__init__\<close> followed by \<^verbatim>\<open>initialize\<close> and the first lines of
  \<^verbatim>\<open>start_voting\<close>: the counter is seeded from the counter file, \<open>n\<close> workers are
  created with tab numbers from 1, and the session fields are set.
\<close>

definition start_manager ::
  "string \<Rightarrow> nat \<Rightarrow> string \<Rightarrow> counter_file option \<Rightarrow> stats_file option \<Rightarrow> manager" where
  "start_manager name n now cf sf =
     \<lparr>bots = map (\<lambda>i. new_bot name (i + 1)) [0..<n],
      total_votes = load_vote_counter cf,
      session_start_time = Some now,
      session_start_votes = load_vote_counter cf,
      target_name = name,
      counter_disk = cf,
      stats_disk = sf\<rparr>"

text \<open>
  What happens to the fleet between suspension points: a worker counts a confirmed
  vote (\<^verbatim>\<open>self.vote_count += 1\<close> in its loop), or the completion handler runs for
  some tab. The two are separate events, so every interleaving of workers is a list
  of events. A worker index out of range names no worker and changes nothing.
\<close>

datatype event = Counted nat | Completed nat string

definition count_vote :: "nat \<Rightarrow> manager \<Rightarrow> manager" where
  "count_vote i m =
     (if i < length (bots m)
      then m\<lparr>bots := (bots m)[i := (bots m ! i)\<lparr>vote_count := vote_count (bots m ! i) + 1,
                                                  last_confirmation_detected := True\<rparr>]\<rparr>
      else m)"

fun apply_event :: "event \<Rightarrow> manager \<Rightarrow> manager" where
  "apply_event (Counted i) m = count_vote i m"
| "apply_event (Completed tab now) m = on_vote_completed tab now m"

fun run_events :: "event list \<Rightarrow> manager \<Rightarrow> manager" where
  "run_events [] m = m"
| "run_events (e # es) m = run_events es (apply_event e m)"

section \<open>The browser driver boundary\<close>

text \<open>
  Every call on the driver either returns a value or raises. A page snapshot gives the
  answer of each probe; an element gives the answers of the calls made on it.
  \<open>bounding_box\<close> keeps the height of the box only (\<open>None\<close>: no box).
\<close>

datatype 'a probe = Raises | Returns 'a

record element =
  is_visible :: "bool probe"
  is_enabled :: "bool probe"
  inner_text :: "string probe"
  input_value :: "string probe"
  get_attribute :: "string \<Rightarrow> string option probe"
  bounding_box :: "int option probe"
  click :: "unit probe"

record page =
  url :: string
  body_text :: "string probe"
  query_selector :: "string \<Rightarrow> element option probe"
  query_selector_all :: "string \<Rightarrow> element list probe"
  bring_to_front :: "unit probe"

text \<open>Sequencing inside one \<^verbatim>\<open>try\<close> block: an exception leaves the block.\<close>

definition and_then :: "'a probe \<Rightarrow> ('a \<Rightarrow> 'b probe) \<Rightarrow> 'b probe" where
  "and_then x f = (case x of Raises \<Rightarrow> Raises | Returns v \<Rightarrow> f v)"

text \<open>A test that returns from the function when it matches, and goes on otherwise.\<close>

definition or_else :: "bool probe \<Rightarrow> bool probe \<Rightarrow> bool probe" where
  "or_else a b = (case a of Raises \<Rightarrow> Raises | Returns m \<Rightarrow> if m then Returns True else b)"

section \<open>The page state classifier (bot.py, detect\_page\_state)\<close>

datatype page_state = Voting | Confirmation | Error | LoginRequired | Unknown

definition login_indicators :: "string list" where
  "login_indicators =
     [''authx.globoid.globo.com'', ''accounts.google.com'', ''goidc.globo.com'',
      ''/login'', ''login-callback'', ''Fazer Login'', ''Sign in'']"

definition login_keywords :: "string list" where
  "login_keywords =
     [''fazer login'', ''entrar com conta globo'', ''escolha uma conta'',
      ''sign in with google'', ''fazer login com o google'', ''use sua conta google'',
      ''prosseguir para globo.com'']"

definition error_keywords :: "string list" where
  "error_keywords =
     [''algo deu errado'',
      ''erro na verifica'' @ [CHR 0xE7, CHR 0xE3] @ ''o'',
      ''vota'' @ [CHR 0xE7, CHR 0xE3] @ ''o encerrada'',
      ''parece que voc'' @ [CHR 0xEA] @ '' est'' @ [CHR 0xE1] @ '' em mais de um dispositivo'',
      ''estamos com muitos acessos agora'',
      ''erro na verifica'' @ [CHR 0xE7, CHR 0xE3] @ ''o do usu'' @ [CHR 0xE1] @ ''rio'']"

definition error_selector :: string where
  \<open>error_selector = ''[class*="error"], [class*="Error"], [id*="error"], [id*="Error"]''\<close>

definition confirmation_selector :: string where
  \<open>confirmation_selector = ''h1, [class*="success"], [class*="Success"]''\<close>

text \<open>The three selectors of the "Votar Novamente" button, in both functions that use them.\<close>

definition vote_again_selectors :: "string list" where
  \<open>vote_again_selectors =
     [''button[aria-label*="Votar novamente"]'',
      ''button[aria-label*="Votar Novamente"]'',
      ''button[aria-label*="votar novamente"]'']\<close>

definition exact_selector :: "string \<Rightarrow> string" where
  \<open>exact_selector name = ''button[aria-label="'' @ name @ ''"]''\<close>

definition voting_heading :: string where
  "voting_heading = ''quem voc'' @ [CHR 0xEA] @ '' quer eliminar''"

definition login_url_test :: "string \<Rightarrow> bool" where
  "login_url_test u = any_in (map lower login_indicators) (lower u)"

definition login_text_test :: "page \<Rightarrow> bool probe" where
  "login_text_test p =
     and_then (body_text p) (\<lambda>page_text. Returns (any_in login_keywords (lower page_text)))"

text \<open>The loop over error-styled elements, and again over the headings.\<close>

fun scan_error :: "element list \<Rightarrow> bool probe" where
  "scan_error [] = Returns False"
| "scan_error (elem # elems) =
     and_then (is_visible elem) (\<lambda>v.
       if v then and_then (inner_text elem) (\<lambda>text.
                   if any_in error_keywords (lower text) then Returns True
                   else scan_error elems)
       else scan_error elems)"

definition error_test :: "page \<Rightarrow> bool probe" where
  "error_test p =
     or_else (and_then (query_selector_all p error_selector) scan_error)
             (and_then (query_selector_all p ''h1, h2, h3'') scan_error)"

fun scan_confirmation :: "element list \<Rightarrow> bool probe" where
  "scan_confirmation [] = Returns False"
| "scan_confirmation (elem # elems) =
     and_then (is_visible elem) (\<lambda>v.
       if v then and_then (inner_text elem) (\<lambda>text.
                   if is_in ''Seu voto'' text \<or> is_in ''seu voto'' (lower text) then Returns True
                   else scan_confirmation elems)
       else scan_confirmation elems)"

definition confirmation_text_test :: "page \<Rightarrow> bool probe" where
  "confirmation_text_test p = and_then (query_selector_all p confirmation_selector) scan_confirmation"

definition selector_visible :: "page \<Rightarrow> string \<Rightarrow> bool probe" where
  "selector_visible p selector =
     and_then (query_selector p selector) (\<lambda>element.
       case element of None \<Rightarrow> Returns False | Some e \<Rightarrow> is_visible e)"

text \<open>Each selector has its own handler: an exception moves on to the next selector.\<close>

fun vote_again_visible :: "page \<Rightarrow> string list \<Rightarrow> bool" where
  "vote_again_visible p [] = False"
| "vote_again_visible p (selector # selectors) =
     (if selector_visible p selector = Returns True then True
      else vote_again_visible p selectors)"

text \<open>\<^verbatim>\<open>if aria_label and self.participant_name in aria_label\<close>\<close>

fun scan_labels :: "string \<Rightarrow> element list \<Rightarrow> bool probe" where
  "scan_labels name [] = Returns False"
| "scan_labels name (button # buttons) =
     and_then (is_visible button) (\<lambda>v.
       if v then and_then (get_attribute button ''aria-label'') (\<lambda>aria_label.
                   case aria_label of
                     None \<Rightarrow> scan_labels name buttons
                   | Some a \<Rightarrow> if a \<noteq> [] \<and> is_in name a then Returns True
                               else scan_labels name buttons)
       else scan_labels name buttons)"

fun scan_h1 :: "element list \<Rightarrow> bool probe" where
  "scan_h1 [] = Returns False"
| "scan_h1 (h1 # h1s) =
     and_then (is_visible h1) (\<lambda>v.
       if v then and_then (inner_text h1) (\<lambda>text.
                   if is_in voting_heading (lower text) then Returns True else scan_h1 h1s)
       else scan_h1 h1s)"

definition heading_test :: "page \<Rightarrow> bool probe" where
  "heading_test p = and_then (query_selector_all p ''h1'') scan_h1"

text \<open>
  The voting block. The exact-label probe and the label scan share the outer handler of
  the block; the heading check has a handler of its own inside it.
\<close>

definition voting_test :: "string \<Rightarrow> page \<Rightarrow> bool probe" where
  "voting_test name p =
     or_else (selector_visible p (exact_selector name))
       (or_else (and_then (query_selector_all p ''button[aria-label]'') (scan_labels name))
          (Returns (heading_test p = Returns True)))"

text \<open>The body of the outer \<^verbatim>\<open>try\<close>, and the function with its outer handler.\<close>

definition detect_body :: "string \<Rightarrow> page \<Rightarrow> page_state probe" where
  "detect_body name p =
     (if login_url_test (url p) then Returns LoginRequired
      else if login_text_test p = Returns True then Returns LoginRequired
      else if error_test p = Returns True then Returns Error
      else if confirmation_text_test p = Returns True then Returns Confirmation
      else if vote_again_visible p vote_again_selectors then Returns Confirmation
      else if voting_test name p = Returns True then Returns Voting
      else Returns Unknown)"

definition detect_page_state :: "string \<Rightarrow> page \<Rightarrow> page_state" where
  "detect_page_state name p = (case detect_body name p of Raises \<Rightarrow> Unknown | Returns st \<Rightarrow> st)"

section \<open>Clicking "Votar Novamente" (bot.py, click\_vote\_again)\<close>

definition click_it :: "element \<Rightarrow> bool probe" where
  "click_it button = and_then (click button) (\<lambda>_. Returns True)"

definition click_found :: "page \<Rightarrow> string \<Rightarrow> bool probe" where
  "click_found p selector =
     and_then (query_selector p selector) (\<lambda>button.
       case button of None \<Rightarrow> Returns False | Some b \<Rightarrow> click_it b)"

fun click_by_selectors :: "page \<Rightarrow> string list \<Rightarrow> bool" where
  "click_by_selectors p [] = False"
| "click_by_selectors p (selector # selectors) =
     (if click_found p selector = Returns True then True else click_by_selectors p selectors)"

definition vote_again_text :: "string \<Rightarrow> bool" where
  "vote_again_text text_content =
     (is_in ''votar'' (lower text_content) \<and> is_in ''novamente'' (lower text_content))"

fun click_by_text :: "element list \<Rightarrow> bool probe" where
  "click_by_text [] = Returns False"
| "click_by_text (button # buttons) =
     and_then (inner_text button) (\<lambda>text_content.
       if vote_again_text text_content then click_it button else click_by_text buttons)"

definition vote_again_xpath :: string where
  \<open>vote_again_xpath = ''xpath=//button[contains(text(), "Votar") and contains(text(), "Novamente")]''\<close>

definition click_vote_again_body :: "page \<Rightarrow> bool probe" where
  "click_vote_again_body p =
     (if click_by_selectors p vote_again_selectors then Returns True
      else if and_then (query_selector_all p ''button'') click_by_text = Returns True then Returns True
      else if click_found p vote_again_xpath = Returns True then Returns True
      else Returns False)"

definition click_vote_again :: "page \<Rightarrow> bool" where
  "click_vote_again p = (case click_vote_again_body p of Raises \<Rightarrow> False | Returns b \<Rightarrow> b)"

section \<open>The worker loop (bot.py, run\_vote\_loop)\<close>

text \<open>
  The loop's own state: the worker's fields, the local \<^verbatim>\<open>consecutive_errors\<close>, and
  the tab numbers passed to the completion callback so far.
\<close>

record loop_state = bot +
  consecutive_errors :: nat
  callback_log :: "nat list"

record loop_config =
  max_votes :: int
  has_browser_manager :: bool
  has_vote_callback :: bool

text \<open>
  What one iteration meets: the page when it is classified, the answer of
  \<^verbatim>\<open>check_all_tabs_on_vote_page\<close>, the result of \<^verbatim>\<open>vote\<close>, whether the awaited
  callback returns (\<open>False\<close>: it raises), and the page when the button is clicked.
\<close>

record tick =
  snap :: page
  tabs_on_vote_page :: bool
  vote_ok :: bool
  callback_ok :: bool
  click_snap :: page

definition login_urls :: "string list" where
  "login_urls = [''authx.globoid.globo.com'', ''accounts.google.com'', ''goidc.globo.com'']"

definition is_login_page :: "string \<Rightarrow> bool" where
  "is_login_page u = any_in login_urls (lower u)"

text \<open>
  The head of an iteration, up to the classification. Without a browser manager the
  local \<^verbatim>\<open>state\<close> is never bound and reading it raises, which the loop's handler
  catches.
\<close>

datatype pre = Raised | Skipped | CapReached | Classified page_state

definition pre_check :: "loop_config \<Rightarrow> tick \<Rightarrow> loop_state \<Rightarrow> pre" where
  "pre_check cfg t s =
     (if \<not> has_browser_manager cfg then Raised
      else if is_login_page (url (snap t)) then Classified LoginRequired
      else if \<not> tabs_on_vote_page t then Skipped
      else if max_votes cfg > 0 \<and> vote_count s \<ge> max_votes cfg then CapReached
      else Classified (detect_page_state (participant_name s) (snap t)))"

definition after_click :: "tick \<Rightarrow> loop_state \<Rightarrow> loop_state" where
  "after_click t s =
     (if click_vote_again (click_snap t) then s\<lparr>last_confirmation_detected := False\<rparr> else s)"

text \<open>
  The branch taken for the classified state. The login wait and the reloads only sleep,
  probe and log; they write no field of the worker.
\<close>

definition act :: "loop_config \<Rightarrow> tick \<Rightarrow> page_state \<Rightarrow> loop_state \<Rightarrow> loop_state" where
  "act cfg t st s =
     (let s1 = (if st \<noteq> Error then s\<lparr>consecutive_errors := 0\<rparr> else s)
      in case st of
           Voting \<Rightarrow> s1\<lparr>last_confirmation_detected := False\<rparr>
         | Confirmation \<Rightarrow>
             if \<not> last_confirmation_detected s1
             then let s2 = s1\<lparr>vote_count := vote_count s1 + 1,
                               last_confirmation_detected := True\<rparr>
                  in if has_vote_callback cfg
                     then let s3 = s2\<lparr>callback_log := callback_log s2 @ [tab_number s2]\<rparr>
                          in if callback_ok t then after_click t s3 else s3
                     else after_click t s2
             else after_click t s1
         | LoginRequired \<Rightarrow> s1
         | Error \<Rightarrow>
             (let n = consecutive_errors s1 + 1
              in s1\<lparr>consecutive_errors := (if n \<ge> 5 then 0 else n)\<rparr>)
         | Unknown \<Rightarrow> s1)"

text \<open>One iteration; \<open>None\<close> is the \<^verbatim>\<open>break\<close> at the vote cap.\<close>

definition iteration :: "loop_config \<Rightarrow> tick \<Rightarrow> loop_state \<Rightarrow> loop_state option" where
  "iteration cfg t s =
     (case pre_check cfg t s of
        Raised \<Rightarrow> Some s
      | Skipped \<Rightarrow> Some s
      | CapReached \<Rightarrow> None
      | Classified st \<Rightarrow> Some (act cfg t st s))"

fun run_vote_loop :: "loop_config \<Rightarrow> tick list \<Rightarrow> loop_state \<Rightarrow> loop_state" where
  "run_vote_loop cfg [] s = s"
| "run_vote_loop cfg (t # ts) s =
     (case iteration cfg t s of None \<Rightarrow> s | Some s' \<Rightarrow> run_vote_loop cfg ts s')"

definition new_loop_state :: "string \<Rightarrow> nat \<Rightarrow> loop_state" where
  "new_loop_state name tab =
     \<lparr>participant_name = name, tab_number = tab, vote_count = 0,
      last_confirmation_detected = False, consecutive_errors = 0, callback_log = []\<rparr>"

text \<open>
  A run of iterations that all classify the page as a confirmation, where the click of
  every iteration but the last fails.
\<close>

fun confirmations_only :: "loop_config \<Rightarrow> tick list \<Rightarrow> loop_state \<Rightarrow> bool" where
  "confirmations_only cfg [] s = True"
| "confirmations_only cfg (t # ts) s =
     (pre_check cfg t s = Classified Confirmation
      \<and> (ts = [] \<or> \<not> click_vote_again (click_snap t))
      \<and> confirmations_only cfg ts (act cfg t Confirmation s))"

section \<open>Waiting for the challenge to be solved (captcha\_handler.py)\<close>




















text \<open>
  A history of statistics saves: each save is made by the coordinator as it is then,
  on the file as the save before left it.
\<close>

fun stats_saves :: "(string \<times> manager) list \<Rightarrow> stats_file option \<Rightarrow> stats_file option" where
  "stats_saves [] d = d"
| "stats_saves ((now, m) # xs) d =
     stats_saves xs (stats_disk (save_vote_stats now (m\<lparr>stats_disk := d\<rparr>)))"

definition stats_ok :: "stats_file \<Rightarrow> bool" where
  "stats_ok st = (length (sessoes st) \<le> 100 \<and> distinct (map data_inicio (sessoes st)))"

section \<open>Notions used to state the properties\<close>

text \<open>
  A page matches a login pattern when its URL contains a login indicator or its
  visible text, when it can be read, contains a login keyword. A voting control for
  the target is visible when the exact-label button is, or when some labelled button
  whose label contains the target is.
\<close>

definition matches_login :: "page \<Rightarrow> bool" where
  "matches_login p =
     (login_url_test (url p)
      \<or> (case body_text p of Returns t \<Rightarrow> any_in login_keywords (lower t) | Raises \<Rightarrow> False))"

definition visible_exact :: "string \<Rightarrow> page \<Rightarrow> bool" where
  "visible_exact name p =
     (case query_selector p (exact_selector name) of
        Returns (Some b) \<Rightarrow> is_visible b = Returns True
      | _ \<Rightarrow> False)"

definition label_matches :: "string \<Rightarrow> element \<Rightarrow> bool" where
  "label_matches name b =
     (is_visible b = Returns True
      \<and> (case get_attribute b ''aria-label'' of
           Returns (Some a) \<Rightarrow> a \<noteq> [] \<and> is_in name a
         | _ \<Rightarrow> False))"

definition visible_labelled :: "string \<Rightarrow> page \<Rightarrow> bool" where
  "visible_labelled name p =
     (case query_selector_all p ''button[aria-label]'' of
        Returns bs \<Rightarrow> list_ex (label_matches name) bs
      | Raises \<Rightarrow> False)"














text \<open>
  The votes counted by the workers of a fleet of \<open>n\<close> in a list of events.
\<close>

fun votes_counted :: "nat \<Rightarrow> event list \<Rightarrow> int" where
  "votes_counted n [] = 0"
| "votes_counted n (Counted i # es) = (if i < n then 1 else 0) + votes_counted n es"
| "votes_counted n (Completed tab now # es) = votes_counted n es"

text \<open>
  Whether a save records the current session, and the record it writes for it.
\<close>

definition records_session :: "manager \<Rightarrow> bool" where
  "records_session m =
     (session_start_time m \<noteq> None
      \<and> (total_votes m - session_start_votes m > 0 \<or> sum_list (map vote_count (bots m)) > 0))"

definition session_record :: "string \<Rightarrow> string \<Rightarrow> manager \<Rightarrow> session_info" where
  "session_record start now m =
     \<lparr>data_inicio = start, data_fim = now,
      votos_na_sessao = total_votes m - session_start_votes m,
      votos_por_aba = map vote_count (bots m),
      total_ao_final = total_votes m,
      participante = target_name m,
      numero_abas = length (bots m)\<rparr>"

section \<open>Concrete inputs\<close>

definition seeded_counter :: counter_file where
  "seeded_counter = \<lparr>cf_total_votes = 7, cf_last_updated = ''2024-01-01T10:00:00'',
                      cf_votes_per_tab = [4, 3]\<rparr>"

definition session_early :: session_info where
  "session_early =
     \<lparr>data_inicio = ''2024-01-02 09:00:00'', data_fim = ''2024-01-02 09:05:00'',
      votos_na_sessao = 1, votos_por_aba = [1, 0], total_ao_final = 1,
      participante = ''Alice'', numero_abas = 2\<rparr>"

definition session_later :: session_info where
  "session_later =
     \<lparr>data_inicio = ''2024-01-02 09:00:00'', data_fim = ''2024-01-02 09:20:00'',
      votos_na_sessao = 5, votos_por_aba = [3, 2], total_ao_final = 5,
      participante = ''Alice'', numero_abas = 2\<rparr>"

definition voted_manager :: manager where
  "voted_manager =
     \<lparr>bots = [(new_bot ''Alice'' 1)\<lparr>vote_count := 1, last_confirmation_detected := True\<rparr>,
              new_bot ''Alice'' 2],
      total_votes = 1, session_start_time = Some ''2024-01-02 09:00:00'',
      session_start_votes = 0, target_name = ''Alice'', counter_disk = None,
      stats_disk = None\<rparr>"

definition two_saves :: "(string \<times> manager) list" where
  "two_saves = [(''2024-01-02 09:05:00'', voted_manager), (''2024-01-02 09:20:00'', voted_manager)]"

text \<open>
  Pages of the voting site as the driver reports them: an empty page, the page that
  confirms a vote by its heading only, and the voting page with the button of Alice.
\<close>

definition plain_element :: element where
  "plain_element =
     \<lparr>is_visible = Returns True, is_enabled = Returns True, inner_text = Returns [],
      input_value = Returns [], get_attribute = (\<lambda>_. Returns None),
      bounding_box = Returns None, click = Returns ()\<rparr>"

definition blank_page :: page where
  "blank_page =
     \<lparr>url = ''https://gshow.globo.com/realities/bbb/votacao'', body_text = Returns [],
      query_selector = (\<lambda>_. Returns None), query_selector_all = (\<lambda>_. Returns []),
      bring_to_front = Returns ()\<rparr>"

definition vote_registered_heading :: element where
  "vote_registered_heading = plain_element\<lparr>inner_text := Returns ''Seu voto foi registrado''\<rparr>"

definition confirmation_page :: page where
  "confirmation_page =
     blank_page\<lparr>body_text := Returns ''Seu voto foi registrado'',
                query_selector_all :=
                  (\<lambda>s. if s = ''h1'' \<or> s = ''h1, h2, h3'' \<or> s = confirmation_selector
                       then Returns [vote_registered_heading] else Returns [])\<rparr>"

definition alice_button :: element where
  "alice_button =
     plain_element\<lparr>inner_text := Returns ''Alice'',
                   get_attribute := (\<lambda>a. if a = ''aria-label'' then Returns (Some ''Alice'')
                                          else Returns None)\<rparr>"

definition voting_page :: page where
  "voting_page =
     blank_page\<lparr>body_text := Returns ''Alice'',
                query_selector :=
                  (\<lambda>s. if s = exact_selector ''Alice'' then Returns (Some alice_button)
                       else Returns None),
                query_selector_all :=
                  (\<lambda>s. if s = ''button'' \<or> s = ''button[aria-label]''
                       then Returns [alice_button] else Returns [])\<rparr>"


definition default_config :: loop_config where
  "default_config = \<lparr>max_votes = - 1, has_browser_manager = True, has_vote_callback = True\<rparr>"

definition confirmation_tick :: tick where
  "confirmation_tick =
     \<lparr>snap = confirmation_page, tabs_on_vote_page = True, vote_ok = True,
      callback_ok = True, click_snap = confirmation_page\<rparr>"

definition unknown_tick :: tick where
  "unknown_tick =
     \<lparr>snap = blank_page, tabs_on_vote_page = True, vote_ok = True,
      callback_ok = True, click_snap = blank_page\<rparr>"

definition voting_tick :: tick where
  "voting_tick =
     \<lparr>snap = voting_page, tabs_on_vote_page = True, vote_ok = True,
      callback_ok = True, click_snap = voting_page\<rparr>"

definition counted_state :: loop_state where
  "counted_state = run_vote_loop default_config [confirmation_tick] (new_loop_state ''Alice'' 1)"

definition reloaded_state :: loop_state where
  "reloaded_state =
     run_vote_loop default_config [confirmation_tick, unknown_tick] (new_loop_state ''Alice'' 1)"



definition login_redirect_page :: page where
  "login_redirect_page = voting_page\<lparr>url := ''https://accounts.google.com/signin/v2''\<rparr>"

definition who_heading :: element where
  "who_heading =
     plain_element\<lparr>inner_text := Returns (''Quem voc'' @ [CHR 0xEA] @ '' quer eliminar?'')\<rparr>"

definition heading_only_page :: page where
  "heading_only_page =
     blank_page\<lparr>query_selector_all :=
                  (\<lambda>s. if s = ''h1'' \<or> s = ''h1, h2, h3'' \<or> s = confirmation_selector
                       then Returns [who_heading] else Returns [])\<rparr>"

definition heading_page_probe_raises :: page where
  "heading_page_probe_raises =
     heading_only_page\<lparr>query_selector :=
                         (\<lambda>s. if s = exact_selector ''Alice'' then Raises else Returns None)\<rparr>"












text \<open>
  A statistics file in which two records share a start, and the coordinator of a later
  session about to save on it.
\<close>

definition duplicated_stats :: stats_file where
  "duplicated_stats =
     \<lparr>total_historico = 9,
      sessoes = [session_early, session_later],
      ultima_atualizacao = Some ''2024-01-02 09:20:00'',
      estatisticas_gerais = None\<rparr>"

definition next_day_manager :: manager where
  "next_day_manager =
     voted_manager\<lparr>session_start_time := Some ''2024-01-03 10:00:00'',
                   stats_disk := Some duplicated_stats\<rparr>"

text \<open>
  The coordinator saving again on the file of its own session, and a coordinator that
  has not counted a vote yet.
\<close>

definition resaved_manager :: manager where
  "resaved_manager =
     voted_manager\<lparr>stats_disk := Some \<lparr>total_historico = 1, sessoes = [session_early],
                                        ultima_atualizacao = Some ''2024-01-02 09:05:00'',
                                        estatisticas_gerais = None\<rparr>\<rparr>"

definition idle_manager :: manager where
  "idle_manager = start_manager ''Alice'' 2 ''2024-01-03 10:00:00'' None (Some duplicated_stats)"

section \<open>Counter consistency\<close>

lemma bots_on_vote_completed: "bots (on_vote_completed tab now m) = bots m"
  by (simp add: on_vote_completed_def save_vote_stats_def save_vote_counter_def Let_def)

lemma total_on_vote_completed:
  "total_votes (on_vote_completed tab now m) = sum_list (map vote_count (bots m))"
  by (simp add: on_vote_completed_def save_vote_stats_def save_vote_counter_def Let_def)

lemma run_events_append: "run_events (es @ fs) m = run_events fs (run_events es m)"
  by (induction es arbitrary: m) simp_all

section \<open>The persisted seed\<close>

lemma sum_vote_count_update:
  "i < length bs \<Longrightarrow>
   sum_list (map vote_count (bs[i := b]))
     = sum_list (map vote_count bs) + vote_count b - vote_count (bs ! i)"
proof (induction bs arbitrary: i)
  case Nil
  then show ?case by simp
next
  case (Cons a bs)
  then show ?case by (cases i) simp_all
qed

lemma length_bots_count_vote: "length (bots (count_vote i m)) = length (bots m)"
  by (simp add: count_vote_def)

lemma sum_count_vote:
  "sum_list (map vote_count (bots (count_vote i m)))
     = sum_list (map vote_count (bots m)) + (if i < length (bots m) then 1 else 0)"
  by (simp add: count_vote_def sum_vote_count_update)

lemma counted_events:
  "length (bots (run_events (map Counted js) m)) = length (bots m) \<and>
   sum_list (map vote_count (bots (run_events (map Counted js) m)))
     = sum_list (map vote_count (bots m))
       + int (length (filter (\<lambda>j. j < length (bots m)) js))"
proof (induction js arbitrary: m)
  case Nil
  then show ?case by simp
next
  case (Cons j js)
  show ?case
    using Cons.IH [of "count_vote j m"]
    by (simp add: length_bots_count_vote sum_count_vote)
qed

lemma start_manager_counts:
  "sum_list (map vote_count (bots (start_manager name n now cf sf))) = 0"
  "length (bots (start_manager name n now cf sf)) = n"
  "total_votes (start_manager name n now cf sf) = load_vote_counter cf"
  by (simp_all add: start_manager_def new_bot_def comp_def)

text \<open>
  C10. The total starts as the persisted seed \<open>S\<close>, every worker starts at 0, and
  after the first completion of the session the total is the number of votes the
  workers counted in this session: the seed is not part of it.
\<close>

theorem persisted_seed_discarded:
  assumes "load_vote_counter cf = S" and "0 < S"
  shows "total_votes (start_manager name n now cf sf) = S
       \<and> total_votes (run_events (map Counted js @ [Completed tab now'])
                        (start_manager name n now cf sf))
           = int (length (filter (\<lambda>j. j < n) js))
       \<and> total_votes (run_events (map Counted js @ [Completed tab now'])
                        (start_manager name n now cf sf))
           \<noteq> S + int (length (filter (\<lambda>j. j < n) js))"
  using assms counted_events [of js "start_manager name n now cf sf"]
  by (simp add: run_events_append total_on_vote_completed start_manager_counts)

theorem persisted_seed_discarded_witness:
  "load_vote_counter (Some seeded_counter) = 7
   \<and> total_votes (start_manager ''Alice'' 2 ''2024-01-02 09:00:00'' (Some seeded_counter) None) = 7
   \<and> total_votes (run_events [Counted 0, Completed 1 ''2024-01-02 09:05:00'']
                    (start_manager ''Alice'' 2 ''2024-01-02 09:00:00'' (Some seeded_counter) None))
       = 1"
  using persisted_seed_discarded [of "Some seeded_counter" 7 "''Alice''" 2
          "''2024-01-02 09:00:00''" None "[0]" 1 "''2024-01-02 09:05:00''"]
  by (simp add: load_vote_counter_def seeded_counter_def)

section \<open>Counting confirmations in the worker loop\<close>

lemma vote_count_after_click: "vote_count (after_click t s) = vote_count s"
  by (simp add: after_click_def)

lemma callback_log_after_click: "callback_log (after_click t s) = callback_log s"
  by (simp add: after_click_def)

lemma flag_after_click:
  "last_confirmation_detected (after_click t s)
     = (last_confirmation_detected s \<and> \<not> click_vote_again (click_snap t))"
  by (simp add: after_click_def)

lemma vote_count_act_confirmation:
  "vote_count (act cfg t Confirmation s)
     = vote_count s + (if last_confirmation_detected s then 0 else 1)"
  by (simp add: act_def Let_def vote_count_after_click)

lemma callback_log_act_confirmation:
  "callback_log (act cfg t Confirmation s)
     = callback_log s @ (if \<not> last_confirmation_detected s \<and> has_vote_callback cfg
                         then [tab_number s] else [])"
  by (simp add: act_def Let_def callback_log_after_click)

lemma flag_act_confirmation:
  "\<not> click_vote_again (click_snap t) \<Longrightarrow> last_confirmation_detected (act cfg t Confirmation s)"
  by (simp add: act_def Let_def flag_after_click)

text \<open>
  C2, amended. Over a run of one or more iterations that all classify the page as a
  confirmation, with no successful click between them, the vote counter goes up by
  exactly one if the flag is unset when the run begins and does not move if it is
  set; the callback is called exactly when the counter goes up.
\<close>

theorem confirmation_run_counted_by_flag:
  "ts \<noteq> [] \<Longrightarrow> confirmations_only cfg ts s \<Longrightarrow>
   vote_count (run_vote_loop cfg ts s)
     = vote_count s + (if last_confirmation_detected s then 0 else 1)
   \<and> callback_log (run_vote_loop cfg ts s)
     = callback_log s @ (if \<not> last_confirmation_detected s \<and> has_vote_callback cfg
                         then [tab_number s] else [])"
proof (induction ts arbitrary: s)
  case Nil
  then show ?case by simp
next
  case (Cons t ts)
  have pre: "pre_check cfg t s = Classified Confirmation"
    using Cons.prems(2) by simp
  show ?case
  proof (cases "ts = []")
    case True
    then show ?thesis
      by (simp add: iteration_def pre vote_count_act_confirmation callback_log_act_confirmation)
  next
    case False
    then have noclick: "\<not> click_vote_again (click_snap t)"
      and rest: "confirmations_only cfg ts (act cfg t Confirmation s)"
      using Cons.prems(2) by simp_all
    have "vote_count (run_vote_loop cfg ts (act cfg t Confirmation s))
            = vote_count (act cfg t Confirmation s)
          \<and> callback_log (run_vote_loop cfg ts (act cfg t Confirmation s))
            = callback_log (act cfg t Confirmation s)"
      using Cons.IH [OF False rest] flag_act_confirmation [OF noclick] by simp
    then show ?thesis
      by (simp add: iteration_def pre vote_count_act_confirmation callback_log_act_confirmation)
  qed
qed

lemma blank_page_not_login: "is_login_page (url blank_page) = False"
  by code_simp

lemma url_pages:
  "url confirmation_page = url blank_page" "url voting_page = url blank_page"
  by (simp_all add: confirmation_page_def voting_page_def)

lemma detect_confirmation_page: "detect_page_state ''Alice'' confirmation_page = Confirmation"
  by code_simp

lemma detect_voting_page: "detect_page_state ''Alice'' voting_page = Voting"
  by code_simp

lemma detect_blank_page: "detect_page_state ''Alice'' blank_page = Unknown"
  by code_simp

lemma no_click_confirmation_page: "click_vote_again confirmation_page = False"
  by code_simp

lemma no_click_blank_page: "click_vote_again blank_page = False"
  by code_simp

lemma no_click_voting_page: "click_vote_again voting_page = False"
  by code_simp

lemma pre_check_confirmation_tick:
  "participant_name s = ''Alice'' \<Longrightarrow>
   pre_check default_config confirmation_tick s = Classified Confirmation"
  by (simp add: pre_check_def default_config_def confirmation_tick_def url_pages
      blank_page_not_login detect_confirmation_page)

lemma pre_check_unknown_tick:
  "participant_name s = ''Alice'' \<Longrightarrow>
   pre_check default_config unknown_tick s = Classified Unknown"
  by (simp add: pre_check_def default_config_def unknown_tick_def
      blank_page_not_login detect_blank_page)

lemma pre_check_voting_tick:
  "participant_name s = ''Alice'' \<Longrightarrow>
   pre_check default_config voting_tick s = Classified Voting"
  by (simp add: pre_check_def default_config_def voting_tick_def url_pages
      blank_page_not_login detect_voting_page)

lemma counted_state_eq:
  "counted_state =
     \<lparr>participant_name = ''Alice'', tab_number = 1, vote_count = 1,
      last_confirmation_detected = True, consecutive_errors = 0, callback_log = [1]\<rparr>"
  by (simp add: counted_state_def iteration_def pre_check_confirmation_tick act_def Let_def
      after_click_def new_loop_state_def)
     (simp add: default_config_def confirmation_tick_def no_click_confirmation_page)

lemma reloaded_state_eq: "reloaded_state = counted_state"
  unfolding counted_state_eq
  by (simp add: reloaded_state_def iteration_def pre_check_confirmation_tick
      pre_check_unknown_tick act_def Let_def after_click_def new_loop_state_def)
     (simp add: default_config_def confirmation_tick_def no_click_confirmation_page)

text \<open>
  C2 as stated fails: a worker counts a confirmation, the click fails, the page is
  classified unknown and reloaded, and the confirmation that follows is a run of one
  iteration in which the counter does not move.
\<close>

theorem confirmation_after_reload_not_counted:
  "confirmations_only default_config [confirmation_tick] reloaded_state
   \<and> vote_count (run_vote_loop default_config [confirmation_tick] reloaded_state)
       \<noteq> vote_count reloaded_state + 1"
  unfolding reloaded_state_eq counted_state_eq
  by (simp add: iteration_def pre_check_confirmation_tick act_def Let_def after_click_def)

theorem confirmation_run_counted_by_flag_witness:
  "confirmations_only default_config [confirmation_tick, confirmation_tick, confirmation_tick]
     (new_loop_state ''Alice'' 1)
   \<and> vote_count (run_vote_loop default_config
        [confirmation_tick, confirmation_tick, confirmation_tick] (new_loop_state ''Alice'' 1)) = 1"
proof -
  have c: "\<not> click_vote_again (click_snap confirmation_tick)"
    by (simp add: confirmation_tick_def no_click_confirmation_page)
  have h: "confirmations_only default_config
             [confirmation_tick, confirmation_tick, confirmation_tick] (new_loop_state ''Alice'' 1)"
    using c by (simp add: pre_check_confirmation_tick act_def Let_def after_click_def
        new_loop_state_def)
  show ?thesis
    using h confirmation_run_counted_by_flag [OF _ h] by (simp add: new_loop_state_def)
qed

text \<open>
  C4, amended. An iteration that finds the flag set and leaves it unset either
  classified the page as voting, or classified it as a confirmation and its click on
  "Votar Novamente" succeeded. No other iteration clears the flag.
\<close>

theorem flag_cleared_by_click_or_voting:
  assumes "iteration cfg t s = Some s'" and "last_confirmation_detected s"
    and "\<not> last_confirmation_detected s'"
  shows "pre_check cfg t s = Classified Voting
       \<or> (pre_check cfg t s = Classified Confirmation \<and> click_vote_again (click_snap t))"
proof (cases "pre_check cfg t s")
  case (Classified st)
  then have s': "s' = act cfg t st s" using assms(1) by (simp add: iteration_def)
  show ?thesis
    using assms(2,3) unfolding s' Classified
    by (cases st) (auto simp: act_def Let_def flag_after_click split: if_splits)
qed (use assms in \<open>auto simp: iteration_def\<close>)

text \<open>
  C4 as stated fails: after a counted confirmation, an iteration that classifies the
  page as voting clears the flag although no click on "Votar Novamente" succeeds.
\<close>

theorem flag_cleared_without_click:
  "last_confirmation_detected counted_state
   \<and> pre_check default_config voting_tick counted_state = Classified Voting
   \<and> \<not> click_vote_again (click_snap voting_tick)
   \<and> iteration default_config voting_tick counted_state
       = Some (counted_state\<lparr>last_confirmation_detected := False\<rparr>)"
  unfolding counted_state_eq
  by (simp add: iteration_def pre_check_voting_tick act_def Let_def)
     (simp add: voting_tick_def no_click_voting_page)

theorem flag_cleared_by_click_or_voting_witness:
  "iteration default_config voting_tick counted_state
     = Some (counted_state\<lparr>last_confirmation_detected := False\<rparr>)
   \<and> last_confirmation_detected counted_state
   \<and> \<not> last_confirmation_detected (counted_state\<lparr>last_confirmation_detected := False\<rparr>)
   \<and> pre_check default_config voting_tick counted_state = Classified Voting"
proof -
  have it: "iteration default_config voting_tick counted_state
              = Some (counted_state\<lparr>last_confirmation_detected := False\<rparr>)"
    unfolding counted_state_eq
    by (simp add: iteration_def pre_check_voting_tick act_def Let_def)
  have fl: "last_confirmation_detected counted_state"
    by (simp add: counted_state_eq)
  have nf: "\<not> last_confirmation_detected (counted_state\<lparr>last_confirmation_detected := False\<rparr>)"
    by simp
  have nc: "\<not> click_vote_again (click_snap voting_tick)"
    by (simp add: voting_tick_def no_click_voting_page)
  show ?thesis
    using it fl nc flag_cleared_by_click_or_voting [OF it fl nf] by simp
qed

section \<open>The classifier on concrete pages\<close>

lemma detect_login_redirect_page: "detect_page_state ''Alice'' login_redirect_page = LoginRequired" by code_simp
lemma detect_heading_only_page: "detect_page_state ''Alice'' heading_only_page = Voting" by code_simp
lemma detect_heading_page_probe_raises: "detect_page_state ''Alice'' heading_page_probe_raises = Unknown" by code_simp
lemma login_redirect_matches: "matches_login login_redirect_page" by code_simp
lemma login_redirect_control: "visible_exact ''Alice'' login_redirect_page" by code_simp


section \<open>Priority of the login test\<close>

lemma login_text_of_matches:
  "matches_login p \<Longrightarrow> login_url_test (url p) \<or> login_text_test p = Returns True"
  by (auto simp: matches_login_def login_text_test_def and_then_def split: probe.splits)

text \<open>
  C3. A snapshot that matches a login pattern, in the URL or in the visible text, and
  also shows a visible voting control for the target is classified LoginRequired and
  never Voting: the login tests come first and return at once.
\<close>

theorem login_takes_priority_over_voting:
  assumes "matches_login p" and "visible_exact name p \<or> visible_labelled name p"
  shows "detect_page_state name p = LoginRequired \<and> detect_page_state name p \<noteq> Voting"
  using login_text_of_matches [OF assms(1)]
  by (auto simp: detect_page_state_def detect_body_def)

theorem login_takes_priority_over_voting_witness:
  "matches_login login_redirect_page \<and> visible_exact ''Alice'' login_redirect_page
   \<and> detect_page_state ''Alice'' login_redirect_page = LoginRequired"
  using login_takes_priority_over_voting [OF login_redirect_matches disjI1 [OF login_redirect_control]] login_redirect_matches login_redirect_control by simp

section \<open>What the classifier does not look at\<close>
















section \<open>Exceptions inside the classifier\<close>







section \<open>The completion handler\<close>

lemma length_bots_apply_event: "length (bots (apply_event e m)) = length (bots m)"
  by (cases e) (simp_all add: length_bots_count_vote bots_on_vote_completed)

lemma sum_apply_event:
  "sum_list (map vote_count (bots (apply_event e m)))
     = sum_list (map vote_count (bots m)) + votes_counted (length (bots m)) [e]"
  by (cases e) (simp_all add: sum_count_vote bots_on_vote_completed)

lemma votes_counted_Cons:
  "votes_counted n (e # es) = votes_counted n [e] + votes_counted n es"
  by (cases e) simp_all

lemma sum_run_events:
  "length (bots (run_events es m)) = length (bots m) \<and>
   sum_list (map vote_count (bots (run_events es m)))
     = sum_list (map vote_count (bots m)) + votes_counted (length (bots m)) es"
proof (induction es arbitrary: m)
  case Nil
  then show ?case by simp
next
  case (Cons e es)
  show ?case
    using Cons.IH [of "apply_event e m"] votes_counted_Cons [of "length (bots m)" e es]
    by (simp add: length_bots_apply_event sum_apply_event del: votes_counted.simps)
qed

lemma frame_on_vote_completed:
  "on_vote_completed tab now m
     = m\<lparr>total_votes := sum_list (map vote_count (bots m)),
         counter_disk := counter_disk (on_vote_completed tab now m),
         stats_disk := stats_disk (on_vote_completed tab now m)\<rparr>"
  by (simp add: on_vote_completed_def save_vote_stats_def save_vote_counter_def Let_def)

lemma counter_disk_on_vote_completed:
  "counter_disk (on_vote_completed tab now m)
     = Some \<lparr>cf_total_votes = sum_list (map vote_count (bots m)), cf_last_updated = now,
             cf_votes_per_tab = map vote_count (bots m)\<rparr>"
  by (simp add: on_vote_completed_def save_vote_stats_def save_vote_counter_def Let_def)

text \<open>
  C1. The completion handler leaves the workers as they are, sets the total to the sum
  of their vote counts whatever the total was before, writes that total and the
  per-tab counts to the counter file, and changes nothing else of the coordinator but
  the two files. So after any events, in any order and from any workers, a completion
  leaves the total equal to the sum of the vote counts of all workers, which is the
  sum at the start plus the votes counted since.
\<close>

theorem total_votes_recomputed_as_sum:
  "bots (on_vote_completed tab now m) = bots m
   \<and> total_votes (on_vote_completed tab now m) = sum_list (map vote_count (bots m))
   \<and> on_vote_completed tab now m
       = m\<lparr>total_votes := sum_list (map vote_count (bots m)),
           counter_disk := counter_disk (on_vote_completed tab now m),
           stats_disk := stats_disk (on_vote_completed tab now m)\<rparr>
   \<and> counter_disk (on_vote_completed tab now m)
       = Some \<lparr>cf_total_votes = sum_list (map vote_count (bots m)), cf_last_updated = now,
               cf_votes_per_tab = map vote_count (bots m)\<rparr>
   \<and> total_votes (on_vote_completed tab now (m\<lparr>total_votes := x\<rparr>))
       = sum_list (map vote_count (bots m))
   \<and> bots (run_events (es @ [Completed tab now]) m) = bots (run_events es m)
   \<and> total_votes (run_events (es @ [Completed tab now]) m)
       = sum_list (map vote_count (bots (run_events es m)))
   \<and> total_votes (run_events (es @ [Completed tab now]) m)
       = sum_list (map vote_count (bots m)) + votes_counted (length (bots m)) es"
  using frame_on_vote_completed [of tab now m] sum_run_events [of es m]
  by (simp add: run_events_append total_on_vote_completed bots_on_vote_completed
      counter_disk_on_vote_completed)

theorem total_votes_recomputed_as_sum_witness:
  "total_votes (run_events [Counted 0, Counted 1, Counted 0, Completed 1 ''2024-01-02 09:05:00'']
                  (start_manager ''Alice'' 2 ''2024-01-02 09:00:00'' (Some seeded_counter) None))
     = 3"
  using total_votes_recomputed_as_sum [of 1 "''2024-01-02 09:05:00''"
          "start_manager ''Alice'' 2 ''2024-01-02 09:00:00'' (Some seeded_counter) None" 0
          "[Counted 0, Counted 1, Counted 0]"]
  by (simp add: start_manager_counts)

section \<open>The statistics file\<close>

lemma session_exists_iff: "session_exists start ss \<longleftrightarrow> start \<in> set (map data_inicio ss)"
  by (induction ss) auto

lemma starts_replace_session: "map data_inicio (replace_session si ss) = map data_inicio ss"
  by (induction ss) simp_all

lemma length_replace_session: "length (replace_session si ss) = length ss"
  by (induction ss) simp_all

lemma replace_session_mem:
  "session_exists (data_inicio si) ss \<Longrightarrow> si \<in> set (replace_session si ss)"
  by (induction ss) (auto split: if_splits)

lemma length_keep_last_100: "length (keep_last_100 ss) \<le> 100"
  by (simp add: keep_last_100_def)

lemma distinct_keep_last_100:
  "distinct (map data_inicio ss) \<Longrightarrow> distinct (map data_inicio (keep_last_100 ss))"
  by (simp add: keep_last_100_def drop_map [symmetric])

lemma distinct_add_session:
  "distinct (map data_inicio ss) \<Longrightarrow> distinct (map data_inicio (add_session si ss))"
  unfolding add_session_def
  by (rule distinct_keep_last_100) (simp add: starts_replace_session session_exists_iff)

lemma length_add_session: "length (add_session si ss) \<le> 100"
  by (simp add: add_session_def length_keep_last_100)

lemma sessoes_new_vote_stats:
  "sessoes (new_vote_stats now m st) = sessoes st \<or>
   (\<exists>si. sessoes (new_vote_stats now m st) = add_session si (sessoes st))"
  by (auto simp: new_vote_stats_def Let_def split: option.splits)

lemma stats_ok_new_vote_stats: "stats_ok st \<Longrightarrow> stats_ok (new_vote_stats now m st)"
  using sessoes_new_vote_stats [of now m st]
  by (auto simp: stats_ok_def length_add_session distinct_add_session)

lemma total_historico_new_vote_stats:
  "total_historico (new_vote_stats now m st) = max (total_historico st) (total_votes m)"
  by (simp add: new_vote_stats_def Let_def split: option.splits)

lemma stats_ok_saves:
  "stats_ok (load_vote_stats d) \<Longrightarrow> stats_ok (load_vote_stats (stats_saves xs d))"
proof (induction xs arbitrary: d)
  case Nil
  then show ?case by simp
next
  case (Cons x xs)
  obtain now m where x: "x = (now, m)" by (cases x)
  have "stats_ok (load_vote_stats
          (Some (new_vote_stats now (m\<lparr>stats_disk := d\<rparr>) (load_vote_stats d))))"
    using Cons.prems by (simp add: load_vote_stats_def stats_ok_new_vote_stats)
  then show ?case
    using Cons.IH by (simp add: x save_vote_stats_def)
qed

lemma add_session_existing:
  "session_exists (data_inicio si) ss \<Longrightarrow> length ss \<le> 100 \<Longrightarrow>
   add_session si ss = replace_session si ss"
  by (simp add: add_session_def keep_last_100_def length_replace_session)

lemma add_session_fresh:
  "\<not> session_exists (data_inicio si) ss \<Longrightarrow>
   add_session si ss = drop (length ss + 1 - 100) (ss @ [si])"
  by (simp add: add_session_def keep_last_100_def)


lemma replace_session_split:
  "session_exists (data_inicio si) ss \<Longrightarrow>
   \<exists>before x after. ss = before @ x # after \<and> data_inicio x = data_inicio si
      \<and> data_inicio si \<notin> data_inicio ` set before
      \<and> replace_session si ss = before @ si # after"
proof (induction ss)
  case Nil
  then show ?case by simp
next
  case (Cons s ss)
  show ?case
  proof (cases "data_inicio s = data_inicio si")
    case True
    then have "s # ss = [] @ s # ss \<and> data_inicio s = data_inicio si
        \<and> data_inicio si \<notin> data_inicio ` set []
        \<and> replace_session si (s # ss) = [] @ si # ss"
      by simp
    then show ?thesis by blast
  next
    case False
    then have "session_exists (data_inicio si) ss"
      using Cons.prems by simp
    then obtain before x after where
      h: "ss = before @ x # after" "data_inicio x = data_inicio si"
         "data_inicio si \<notin> data_inicio ` set before"
         "replace_session si ss = before @ si # after"
      using Cons.IH by blast
    have "s # ss = (s # before) @ x # after \<and> data_inicio x = data_inicio si
        \<and> data_inicio si \<notin> data_inicio ` set (s # before)
        \<and> replace_session si (s # ss) = (s # before) @ si # after"
      using h False by auto
    then show ?thesis by blast
  qed
qed

lemma sessoes_recorded:
  "records_session m \<Longrightarrow> session_start_time m = Some start \<Longrightarrow>
   sessoes (new_vote_stats now m st) = add_session (session_record start now m) (sessoes st)"
  by (simp add: new_vote_stats_def records_session_def session_record_def Let_def)

lemma sessoes_not_recorded:
  "\<not> records_session m \<Longrightarrow> sessoes (new_vote_stats now m st) = sessoes st"
  by (auto simp: new_vote_stats_def records_session_def Let_def split: option.splits)

lemma save_vote_stats_recorded:
  assumes "records_session m" and "session_start_time m = Some start"
  shows "length (sessoes (new_vote_stats now m st)) \<le> 100
       \<and> (\<not> session_exists start (sessoes st) \<longrightarrow>
            sessoes (new_vote_stats now m st)
              = drop (length (sessoes st) + 1 - 100) (sessoes st @ [session_record start now m]))
       \<and> (session_exists start (sessoes st) \<and> length (sessoes st) \<le> 100 \<longrightarrow>
            (\<exists>before x after.
               sessoes st = before @ x # after \<and> data_inicio x = start
               \<and> start \<notin> data_inicio ` set before
               \<and> sessoes (new_vote_stats now m st)
                   = before @ session_record start now m # after))"
proof -
  let ?r = "session_record start now m"
  have s: "data_inicio ?r = start"
    by (simp add: session_record_def)
  have eq: "sessoes (new_vote_stats now m st) = add_session ?r (sessoes st)"
    using assms by (rule sessoes_recorded)
  have fresh: "\<not> session_exists start (sessoes st) \<Longrightarrow>
      add_session ?r (sessoes st) = drop (length (sessoes st) + 1 - 100) (sessoes st @ [?r])"
    using add_session_fresh [of ?r "sessoes st"] s by simp
  have existing: "session_exists start (sessoes st) \<Longrightarrow> length (sessoes st) \<le> 100 \<Longrightarrow>
      \<exists>before x after. sessoes st = before @ x # after \<and> data_inicio x = start
        \<and> start \<notin> data_inicio ` set before
        \<and> add_session ?r (sessoes st) = before @ ?r # after"
    using add_session_existing [of ?r "sessoes st"] replace_session_split [of ?r "sessoes st"] s
    by simp
  show ?thesis
    unfolding eq using fresh existing by (simp add: length_add_session)
qed

text \<open>
  C9, amended. A statistics save changes nothing of the coordinator but the statistics
  file. In the file it writes, the historical total is the maximum of the value loaded
  and the current total, so it never decreases. When the save records the session, the
  list has at most 100 records: a record with a new start is appended and the oldest
  records beyond 100 are dropped; a record whose start is already in a list of at most
  100 takes the place of the first record with that start. When the save records no
  session the list is the one loaded. A list with pairwise different starts and at
  most 100 records is saved as such a list, and every history of saves that begins
  without a file yields one; duplicates already in a file are not removed.
\<close>

theorem save_vote_stats_file_written:
  "\<exists>st. save_vote_stats now m = m\<lparr>stats_disk := Some st\<rparr>
     \<and> total_historico st
         = max (total_historico (load_vote_stats (stats_disk m))) (total_votes m)
     \<and> total_historico (load_vote_stats (stats_disk m)) \<le> total_historico st
     \<and> (\<not> records_session m \<longrightarrow> sessoes st = sessoes (load_vote_stats (stats_disk m)))
     \<and> (\<forall>start. records_session m \<and> session_start_time m = Some start \<longrightarrow>
           length (sessoes st) \<le> 100
           \<and> (\<not> session_exists start (sessoes (load_vote_stats (stats_disk m))) \<longrightarrow>
                sessoes st
                  = drop (length (sessoes (load_vote_stats (stats_disk m))) + 1 - 100)
                      (sessoes (load_vote_stats (stats_disk m)) @ [session_record start now m]))
           \<and> (session_exists start (sessoes (load_vote_stats (stats_disk m)))
               \<and> length (sessoes (load_vote_stats (stats_disk m))) \<le> 100 \<longrightarrow>
                (\<exists>before x after.
                   sessoes (load_vote_stats (stats_disk m)) = before @ x # after
                   \<and> data_inicio x = start \<and> start \<notin> data_inicio ` set before
                   \<and> sessoes st = before @ session_record start now m # after)))
     \<and> (stats_ok (load_vote_stats (stats_disk m)) \<longrightarrow> stats_ok st)
     \<and> stats_ok (load_vote_stats (stats_saves xs None))"
proof -
  let ?old = "load_vote_stats (stats_disk m)"
  let ?st = "new_vote_stats now m ?old"
  have hist: "stats_ok (load_vote_stats (stats_saves xs None))"
    by (rule stats_ok_saves) (simp add: stats_ok_def load_vote_stats_def)
  have "save_vote_stats now m = m\<lparr>stats_disk := Some ?st\<rparr>"
    by (simp add: save_vote_stats_def)
  moreover have "total_historico ?st = max (total_historico ?old) (total_votes m)"
    by (rule total_historico_new_vote_stats)
  moreover have "total_historico ?old \<le> total_historico ?st"
    by (simp add: total_historico_new_vote_stats)
  moreover have "\<not> records_session m \<longrightarrow> sessoes ?st = sessoes ?old"
    by (simp add: sessoes_not_recorded)
  moreover have "stats_ok ?old \<longrightarrow> stats_ok ?st"
    by (simp add: stats_ok_new_vote_stats)
  ultimately show ?thesis
    using hist save_vote_stats_recorded [of m _ now ?old] by blast
qed

lemma starts_after_next_day_save: "map data_inicio (sessoes (load_vote_stats (stats_disk
     (save_vote_stats ''2024-01-03 10:05:00'' next_day_manager))))
   = [''2024-01-02 09:00:00'', ''2024-01-02 09:00:00'', ''2024-01-03 10:00:00'']"
  by code_simp

text \<open>
  C9 as stated fails: the file holds two records with the same start, a later session
  saves its own record, and the two records are both still there.
\<close>

theorem duplicate_starts_survive_save:
  "map data_inicio (sessoes (load_vote_stats (stats_disk next_day_manager)))
     = [''2024-01-02 09:00:00'', ''2024-01-02 09:00:00'']
   \<and> \<not> distinct (map data_inicio (sessoes (load_vote_stats (stats_disk
          (save_vote_stats ''2024-01-03 10:05:00'' next_day_manager)))))"
  using starts_after_next_day_save
  by (simp add: next_day_manager_def duplicated_stats_def load_vote_stats_def
      session_early_def session_later_def)

lemma resaved_manager_facts: "records_session resaved_manager
   \<and> session_start_time resaved_manager = Some ''2024-01-02 09:00:00''
   \<and> session_exists ''2024-01-02 09:00:00'' (sessoes (load_vote_stats (stats_disk resaved_manager)))
   \<and> length (sessoes (load_vote_stats (stats_disk resaved_manager))) \<le> 100
   \<and> stats_ok (load_vote_stats (stats_disk resaved_manager))"
  by code_simp

lemma voted_manager_facts: "records_session voted_manager
   \<and> session_start_time voted_manager = Some ''2024-01-02 09:00:00''
   \<and> \<not> session_exists ''2024-01-02 09:00:00'' (sessoes (load_vote_stats (stats_disk voted_manager)))"
  by code_simp

lemma idle_manager_idle: "\<not> records_session idle_manager" by code_simp

theorem save_vote_stats_file_written_witness:
  "records_session resaved_manager
   \<and> session_start_time resaved_manager = Some ''2024-01-02 09:00:00''
   \<and> session_exists ''2024-01-02 09:00:00'' (sessoes (load_vote_stats (stats_disk resaved_manager)))
   \<and> length (sessoes (load_vote_stats (stats_disk resaved_manager))) \<le> 100
   \<and> stats_ok (load_vote_stats (stats_disk resaved_manager))
   \<and> stats_ok (load_vote_stats (stats_disk
        (save_vote_stats ''2024-01-02 09:20:00'' resaved_manager)))
   \<and> \<not> session_exists ''2024-01-02 09:00:00'' (sessoes (load_vote_stats (stats_disk voted_manager)))
   \<and> length (sessoes (load_vote_stats (stats_disk
        (save_vote_stats ''2024-01-02 09:20:00'' voted_manager)))) \<le> 100
   \<and> \<not> records_session idle_manager
   \<and> sessoes (load_vote_stats (stats_disk (save_vote_stats ''2024-01-03 10:05:00'' idle_manager)))
       = sessoes (load_vote_stats (stats_disk idle_manager))"
proof -
  obtain a where a: "save_vote_stats ''2024-01-02 09:20:00'' resaved_manager
                       = resaved_manager\<lparr>stats_disk := Some a\<rparr>" "stats_ok a"
    using save_vote_stats_file_written [of "''2024-01-02 09:20:00''" resaved_manager "[]"] resaved_manager_facts by blast
  obtain b where b: "save_vote_stats ''2024-01-02 09:20:00'' voted_manager
                       = voted_manager\<lparr>stats_disk := Some b\<rparr>" "length (sessoes b) \<le> 100"
    using save_vote_stats_file_written [of "''2024-01-02 09:20:00''" voted_manager "[]"] voted_manager_facts by blast
  obtain c where c: "save_vote_stats ''2024-01-03 10:05:00'' idle_manager
                       = idle_manager\<lparr>stats_disk := Some c\<rparr>"
      "sessoes c = sessoes (load_vote_stats (stats_disk idle_manager))"
    using save_vote_stats_file_written [of "''2024-01-03 10:05:00''" idle_manager "[]"] idle_manager_idle by blast
  show ?thesis
    using resaved_manager_facts voted_manager_facts idle_manager_idle a b c by (simp add: load_vote_stats_def)
qed

section \<open>Handlers inside the classifier\<close>










section \<open>The fallback chain of the click\<close>









lemma vote_again_text_match: "vote_again_text ''Votar Novamente''" by code_simp






section \<open>The bounded wait\<close>















end
